theory Spec2Isabelle
  imports Complex_Main "HOL-Library.Sublist" "HOL-Library.Multiset"
begin

section \<open>Entity table and highlighted text of the GLiNER results tab\<close>

text \<open>
  The embedding follows \<^verbatim>\<open>gliner-streamlit.py\<close>, lines 108 to 178: the results tab,
  which sorts the predicted entities, builds the table and builds the highlighted text. The
  model itself (loading, \<^verbatim>\<open>predict_entities\<close>) and the widgets are outside: the text,
  the predicted list and the colour dictionary are inputs.
\<close>

subsection \<open>Data\<close>

text \<open>
  One predicted entity is a Python dict with the keys \<^verbatim>\<open>start\<close>, \<^verbatim>\<open>end\<close>,
  \<^verbatim>\<open>label\<close> and, optionally, \<^verbatim>\<open>score\<close> (read with \<^verbatim>\<open>ent.get("score", 0)\<close>).
  Offsets are Python integers, hence unbounded and possibly negative. A Python \<^verbatim>\<open>str\<close> is
  taken as the list of its characters. A float is read as the real number it denotes.
\<close>

record entity =
  ent_start :: int
  ent_end :: int
  ent_label :: string
  ent_score :: "real option"

text \<open>One row of the data frame (lines 130 to 136).\<close>

record row =
  Entity :: string
  Label :: string
  Start :: int
  End :: int
  Score :: real

text \<open>\<^verbatim>\<open>color_options\<close>: a dict from label to colour.\<close>

type_synonym palette = "string \<rightharpoonup> string"

subsection \<open>Python slicing\<close>

text \<open>
  \<^verbatim>\<open>s[start:stop]\<close> on a string of length \<open>n\<close>: a negative index counts from the
  end, and every index is then clamped into \<open>0..n\<close>; the slice is empty unless the adjusted
  start lies below the adjusted stop. Slicing never raises.
\<close>

definition adjust_index :: "int \<Rightarrow> int \<Rightarrow> int" where
  "adjust_index n i =
     (if i < 0 then (if i + n < 0 then 0 else i + n)
      else if n \<le> i then n else i)"

definition py_slice :: "string \<Rightarrow> int \<Rightarrow> int \<Rightarrow> string" where
  "py_slice s start stop =
     (let n = int (length s);
          lo = adjust_index n start;
          hi = adjust_index n stop
      in if lo < hi then take (nat (hi - lo)) (drop (nat lo) s) else [])"

text \<open>\<^verbatim>\<open>s[start:]\<close>: the omitted stop is the length.\<close>

definition py_slice_from :: "string \<Rightarrow> int \<Rightarrow> string" where
  "py_slice_from s start = py_slice s start (int (length s))"

subsection \<open>Sorting (line 122)\<close>

text \<open>
  \<^verbatim>\<open>entities.sort(key=lambda x: x['start'])\<close>. Python's list sort is stable and compares
  the keys only, and the result of a stable sort is determined by the input, so the library's
  stable \<^const>\<open>sort_key\<close> computes the same list.
\<close>

definition sort_entities :: "entity list \<Rightarrow> entity list" where
  "sort_entities entities = sort_key ent_start entities"

text \<open>
  The sort is in place: it updates the list object the variable refers to. Objects live in a
  store indexed by address; the statement rewrites the store at the list's address.
\<close>

type_synonym store = "nat \<Rightarrow> entity list"

definition list_sort_by_start :: "nat \<Rightarrow> store \<Rightarrow> store" where
  "list_sort_by_start a h = h(a := sort_entities (h a))"

subsection \<open>The table (lines 129 to 138)\<close>

text \<open>
  The list comprehension builds one dict per entity. \<open>round3\<close> stands for Python's
  \<^verbatim>\<open>round(x, 3)\<close> on floats, which the embedding leaves uninterpreted.
\<close>

definition entity_row :: "(real \<Rightarrow> real) \<Rightarrow> string \<Rightarrow> entity \<Rightarrow> row" where
  "entity_row round3 text_input ent =
     \<lparr> Entity = py_slice text_input (ent_start ent) (ent_end ent),
       Label = ent_label ent,
       Start = ent_start ent,
       End = ent_end ent,
       Score = round3 (case ent_score ent of None \<Rightarrow> 0 | Some s \<Rightarrow> s) \<rparr>"

definition entities_df :: "(real \<Rightarrow> real) \<Rightarrow> string \<Rightarrow> entity list \<Rightarrow> row list" where
  "entities_df round3 text_input entities = map (entity_row round3 text_input) entities"

text \<open>
  For closed examples: rounding of the exact value to the nearest multiple of one thousandth,
  ties to the even one, which is what \<^verbatim>\<open>round(x, 3)\<close> computes before it converts
  back to a float.
\<close>

definition round_half_even :: "real \<Rightarrow> int" where
  "round_half_even x =
     (let f = \<lfloor>x\<rfloor>; d = x - of_int f
      in if d < 1 / 2 then f else if 1 / 2 < d then f + 1
         else if even f then f else f + 1)"

definition round3_exact :: "real \<Rightarrow> real" where
  "round3_exact x = of_int (round_half_even (x * 1000)) / 1000"

subsection \<open>The colour lookup (line 149)\<close>

text \<open>\<^verbatim>\<open>color_options.get(label, "#90caf9")\<close>.\<close>

definition default_color :: string where
  "default_color = ''#90caf9''"

definition colorFor :: "palette \<Rightarrow> string \<Rightarrow> string" where
  "colorFor color_options label =
     (case color_options label of Some c \<Rightarrow> c | None \<Rightarrow> default_color)"

text \<open>The dictionary of lines 66 to 71, before the colour pickers change it.\<close>

definition initial_color_options :: palette where
  "initial_color_options = map_of
     [(''drug group'', ''#4dd0e1''),
      (''drug generic name'', ''#26a69a''),
      (''drug brand name'', ''#fb8c00''),
      (''chemical or toxins or pesticides'', ''#8bc34a'')]"

subsection \<open>The highlighted text (lines 143 to 165)\<close>

text \<open>
  The f-string of lines 155 to 160 starts right after the opening quotes, so it begins with a
  line break; every line of it keeps its indentation of 24 or 28 blanks. It is cut here at
  its three placeholders into four constant pieces.
\<close>

definition nl :: char where
  "nl = CHR 0x0A"

definition span_open :: string where
  \<open>span_open =
     nl # ''                        <span class="entity-highlight" style="background-color:''\<close>

definition span_open_end :: string where
  \<open>span_open_end = ''">'' @ nl # ''                            ''\<close>

definition label_open :: string where
  \<open>label_open = nl # ''                            <span class="entity-label">''\<close>

definition span_close :: string where
  \<open>span_close =
     ''</span>'' @ nl # ''                        </span>'' @ nl # ''                        ''\<close>

definition highlight_span :: "string \<Rightarrow> string \<Rightarrow> string \<Rightarrow> string" where
  "highlight_span color body label =
     span_open @ color @ span_open_end @ body @ label_open @ label @ span_close"

text \<open>
  The variables the loop reads and writes: the colour dictionary (read only), the string built
  so far and the cursor.
\<close>

record render_state =
  color_options :: palette
  highlighted :: string
  last_idx :: int

text \<open>One pass of the loop body, lines 147 to 162.\<close>

definition highlight_step :: "string \<Rightarrow> render_state \<Rightarrow> entity \<Rightarrow> render_state" where
  "highlight_step text_input st ent =
     (let start = ent_start ent;
          stop = ent_end ent;
          label = ent_label ent;
          color = colorFor (color_options st) label;
          plain = highlighted st @ py_slice text_input (last_idx st) start;
          marked = plain @ highlight_span color (py_slice text_input start stop) label
      in st\<lparr>highlighted := marked, last_idx := stop\<rparr>)"

definition highlight_loop :: "string \<Rightarrow> render_state \<Rightarrow> entity list \<Rightarrow> render_state" where
  "highlight_loop text_input st entities = foldl (highlight_step text_input) st entities"

text \<open>Lines 143 to 165: initialisation, loop, and the rest of the text.\<close>

definition highlight :: "palette \<Rightarrow> string \<Rightarrow> entity list \<Rightarrow> string" where
  "highlight pal text_input entities =
     (let st = highlight_loop text_input
                 \<lparr>color_options = pal, highlighted = [], last_idx = 0\<rparr> entities
      in highlighted st @ py_slice_from text_input (last_idx st))"

subsection \<open>The results tab (lines 108 to 178)\<close>

text \<open>What the tab shows, one constructor per Streamlit call.\<close>

datatype display =
    Subheader string
  | Dataframe "row list"
  | Markdown string
  | Info string
  | Warning string

text \<open>
  The model is taken as loaded and its prediction as given: the list object at address \<open>a\<close>
  of the store is what \<^verbatim>\<open>predict_entities\<close> returned. The result is what is shown and
  the store after the run.
\<close>

definition results_tab ::
  "(real \<Rightarrow> real) \<Rightarrow> palette \<Rightarrow> bool \<Rightarrow> string \<Rightarrow> nat \<Rightarrow> store \<Rightarrow> display list \<times> store" where
  \<open>results_tab round3 pal process_button text_input a h =
     (if process_button \<and> text_input \<noteq> [] then
        (let h' = list_sort_by_start a h;
             entities = h' a
         in if entities \<noteq> [] then
              ([Subheader ''Extracted Entities'',
                Dataframe (entities_df round3 text_input entities),
                Subheader ''Highlighted Text'',
                Markdown (''<div class="results-container">''
                          @ highlight pal text_input entities @ ''</div>'')], h')
            else ([Info ''No entities were detected in the provided text.''], h'))
      else if process_button \<and> text_input = [] then
        ([Warning ''Please enter some text to process.''], h)
      else
        ([Info ''Enter your text in the 'Text Input' tab and click 'Process Text' to see results here.''], h))\<close>

subsection \<open>Reading the text back out of the markup\<close>





text \<open>
  \<open>split_on pat s\<close> cuts \<open>s\<close> at the first occurrence of \<open>pat\<close>, as Python's
  \<^verbatim>\<open>s.partition(pat)\<close> does, and is \<open>None\<close> when there is none.
\<close>

fun split_on :: "'a list \<Rightarrow> 'a list \<Rightarrow> ('a list \<times> 'a list) option" where
  "split_on pat [] = (if pat = [] then Some ([], []) else None)"
| "split_on pat (c # cs) =
     (if prefix pat (c # cs) then Some ([], drop (length pat) (c # cs))
      else map_option (\<lambda>(a, b). (c # a, b)) (split_on pat cs))"

lemma split_on_Some: "split_on pat s = Some (a, b) \<Longrightarrow> s = a @ pat @ b"
proof (induction s arbitrary: a)
  case Nil
  then show ?case by (simp split: if_splits)
next
  case (Cons c cs)
  show ?case
  proof (cases "prefix pat (c # cs)")
    case True
    then obtain zs where zs: "c # cs = pat @ zs" by (auto simp: prefix_def)
    from True Cons.prems have "a = []" and "b = drop (length pat) (c # cs)" by simp_all
    then show ?thesis by (simp add: zs)
  next
    case False
    with Cons.prems obtain a' where "split_on pat cs = Some (a', b)" and "a = c # a'"
      by auto
    with Cons.IH show ?thesis by simp
  qed
qed

text \<open>
  \<open>strip_markup\<close> deletes whole highlighted regions as the template writes them, layout
  included: from each region, only the entity text between the end of the opening tag and the
  label element is kept. A string in which a region is not complete is left as it is.
\<close>

function strip_markup :: "string \<Rightarrow> string" where
  "strip_markup s =
     (case split_on span_open s of
        None \<Rightarrow> s
      | Some (plain, r1) \<Rightarrow>
          (case split_on span_open_end r1 of
             None \<Rightarrow> s
           | Some (color, r2) \<Rightarrow>
               (case split_on label_open r2 of
                  None \<Rightarrow> s
                | Some (body, r3) \<Rightarrow>
                    (case split_on span_close r3 of
                       None \<Rightarrow> s
                     | Some (label, r4) \<Rightarrow> plain @ body @ strip_markup r4))))"
  by pat_completeness auto
termination
proof (relation "measure length")
  show "wf (measure length)" by simp
next
  fix s x2 plain r1 x2a color r2 x2b body r3 x2c label r4
  assume "split_on span_open s = Some x2" "(plain, r1) = x2"
    "split_on span_open_end r1 = Some x2a" "(color, r2) = x2a"
    "split_on label_open r2 = Some x2b" "(body, r3) = x2b"
    "split_on span_close r3 = Some x2c" "(label, r4) = x2c"
  then have "s = plain @ span_open @ r1" "r1 = color @ span_open_end @ r2"
    "r2 = body @ label_open @ r3" "r3 = label @ span_close @ r4"
    by (auto dest: split_on_Some)
  then have "length r4 < length s"
    by (simp add: span_open_def)
  then show "(r4, s) \<in> measure length" by simp
qed

declare strip_markup.simps [simp del]

subsection \<open>Well-formed span lists\<close>

text \<open>
  A span is valid for a text when \<open>0 \<le> start < end \<le> len(text)\<close>. A list is
  non-overlapping when any two of its spans, at different positions, are disjoint as
  half-open intervals.
\<close>

definition disjoint_spans :: "entity \<Rightarrow> entity \<Rightarrow> bool" where
  "disjoint_spans e f = (ent_end e \<le> ent_start f \<or> ent_end f \<le> ent_start e)"



text \<open>
  The string the loop appends from a given cursor on, written without the accumulator; the
  loop is shown below to compute exactly this.
\<close>

fun markup_from :: "palette \<Rightarrow> string \<Rightarrow> int \<Rightarrow> entity list \<Rightarrow> string" where
  "markup_from pal text_input l [] = py_slice_from text_input l"
| "markup_from pal text_input l (e # es) =
     py_slice text_input l (ent_start e)
     @ highlight_span (colorFor pal (ent_label e))
         (py_slice text_input (ent_start e) (ent_end e)) (ent_label e)
     @ markup_from pal text_input (ent_end e) es"

section \<open>Slicing lemmas\<close>








lemma py_slice_empty: "0 \<le> stop \<Longrightarrow> stop \<le> start \<Longrightarrow> py_slice s start stop = []"
  by (auto simp: py_slice_def Let_def adjust_index_def)


lemma py_slice_from_drop:
  "0 \<le> l \<Longrightarrow> l \<le> int (length s) \<Longrightarrow> py_slice_from s l = drop (nat l) s"
  by (auto simp: py_slice_from_def py_slice_def Let_def adjust_index_def)

lemma py_slice_from_0: "py_slice_from s 0 = s"
  by (simp add: py_slice_from_drop)


section \<open>The loop and the string it builds\<close>

lemma highlight_step_color [simp]: "color_options (highlight_step t st e) = color_options st"
  by (simp add: highlight_step_def Let_def)

lemma highlight_loop_markup:
  "highlighted (highlight_loop t st ents) @ py_slice_from t (last_idx (highlight_loop t st ents))
   = highlighted st @ markup_from (color_options st) t (last_idx st) ents"
proof (induction ents arbitrary: st)
  case Nil
  then show ?case by (simp add: highlight_loop_def)
next
  case (Cons e es)
  have "highlight_loop t st (e # es) = highlight_loop t (highlight_step t st e) es"
    by (simp add: highlight_loop_def)
  then show ?case
    using Cons.IH [of "highlight_step t st e"]
    by (simp add: highlight_step_def Let_def)
qed

lemma highlight_markup: "highlight pal t ents = markup_from pal t 0 ents"
  using highlight_loop_markup [of t "\<lparr>color_options = pal, highlighted = [], last_idx = 0\<rparr>" ents]
  by (simp add: highlight_def Let_def)

lemma highlight_Nil: "highlight pal t [] = t"
  by (simp add: highlight_markup py_slice_from_0)

lemma sublist_markup_from:
  "e \<in> set ents \<Longrightarrow>
   sublist (highlight_span (colorFor pal (ent_label e))
              (py_slice t (ent_start e) (ent_end e)) (ent_label e))
     (markup_from pal t l ents)"
proof (induction ents arbitrary: l)
  case Nil
  then show ?case by simp
next
  case (Cons x xs)
  show ?case
  proof (cases "e = x")
    case True
    then show ?thesis by simp
  next
    case False
    with Cons.prems have "e \<in> set xs" by simp
    then obtain ps ss where
      "markup_from pal t (ent_end x) xs
       = ps @ highlight_span (colorFor pal (ent_label e))
                (py_slice t (ent_start e) (ent_end e)) (ent_label e) @ ss"
      using Cons.IH [of "ent_end x"] by (auto simp: sublist_def)
    then have "markup_from pal t l (x # xs)
       = (py_slice t l (ent_start x)
          @ highlight_span (colorFor pal (ent_label x))
              (py_slice t (ent_start x) (ent_end x)) (ent_label x) @ ps)
         @ highlight_span (colorFor pal (ent_label e))
                (py_slice t (ent_start e) (ent_end e)) (ent_label e) @ ss"
      by simp
    then show ?thesis by (simp only: sublist_appendI)
  qed
qed

section \<open>Cutting a string at the pieces of the template\<close>

lemma not_prefix_shifted:
  assumes "k < length pat" "pat ! k = d" "d \<notin> set (take k pat)" "d \<notin> set a" "a \<noteq> []"
  shows "\<not> prefix pat (a @ pat @ b)"
proof
  assume "prefix pat (a @ pat @ b)"
  then obtain zs where zs: "a @ pat @ b = pat @ zs" by (auto simp: prefix_def)
  have "(a @ pat @ b) ! k = (pat @ zs) ! k"
    by (simp only: zs)
  then have at_k: "(a @ pat @ b) ! k = d"
    using assms(1,2) by (simp only: nth_append if_True)
  show False
  proof (cases "k < length a")
    case True
    then have "(a @ pat @ b) ! k = a ! k" by (simp add: nth_append)
    moreover have "a ! k \<in> set a" using True by simp
    ultimately show False using at_k assms(4) by simp
  next
    case False
    define j where "j = k - length a"
    have "0 < length a" using assms(5) by (cases a) simp_all
    then have j: "j < k" "j < length pat" using False assms(1) unfolding j_def by linarith+
    have "(a @ pat @ b) ! k = (pat @ b) ! j"
      using False by (simp add: nth_append j_def)
    also have "\<dots> = pat ! j" using j by (simp add: nth_append)
    finally have "pat ! j = d" using at_k by simp
    moreover have "take k pat ! j = pat ! j" using j by simp
    moreover have "j < length (take k pat)" using j by simp
    ultimately have "d \<in> set (take k pat)" by (metis nth_mem)
    with assms(3) show False by simp
  qed
qed

lemma split_on_first:
  assumes "k < length pat" "pat ! k = d" "d \<notin> set (take k pat)" "d \<notin> set a"
  shows "split_on pat (a @ pat @ b) = Some (a, b)"
  using assms(4)
proof (induction a)
  case Nil
  from assms(1) obtain c cs where "pat @ b = c # cs" by (cases "pat @ b") auto
  moreover have "prefix pat (pat @ b)" by simp
  ultimately show ?case
    by (metis append_Nil append_eq_conv_conj split_on.simps(2))
next
  case (Cons x xs)
  have "\<not> prefix pat ((x # xs) @ pat @ b)"
    using assms(1,2,3) Cons.prems by (rule not_prefix_shifted) simp
  moreover have "d \<notin> set xs" using Cons.prems by simp
  ultimately show ?case using Cons.IH by simp
qed

lemma split_on_None:
  assumes "d \<in> set pat" "d \<notin> set s"
  shows "split_on pat s = None"
  using assms(2)
proof (induction s)
  case Nil
  with assms(1) show ?case by auto
next
  case (Cons c cs)
  have "\<not> prefix pat (c # cs)"
  proof
    assume "prefix pat (c # cs)"
    then have "set pat \<subseteq> set (c # cs)" by (rule set_mono_prefix)
    with assms(1) Cons.prems show False by auto
  qed
  with Cons show ?case by simp
qed

lemma span_open_lt: "25 < length span_open \<and> span_open ! 25 = CHR ''<'' \<and> CHR ''<'' \<notin> set (take 25 span_open)"
  by code_simp

lemma span_open_end_quote:
  "0 < length span_open_end \<and> span_open_end ! 0 = CHR 0x22 \<and> CHR 0x22 \<notin> set (take 0 span_open_end)"
  by code_simp

lemma label_open_lt: "29 < length label_open \<and> label_open ! 29 = CHR ''<'' \<and> CHR ''<'' \<notin> set (take 29 label_open)"
  by code_simp

lemma span_close_lt: "0 < length span_close \<and> span_close ! 0 = CHR ''<'' \<and> CHR ''<'' \<notin> set (take 0 span_close)"
  by code_simp

lemma split_span_open: "CHR ''<'' \<notin> set a \<Longrightarrow> split_on span_open (a @ span_open @ b) = Some (a, b)"
  using span_open_lt by (intro split_on_first [where k = 25 and d = "CHR ''<''"]) simp_all

lemma split_span_open_end: "CHR 0x22 \<notin> set a \<Longrightarrow> split_on span_open_end (a @ span_open_end @ b) = Some (a, b)"
  using span_open_end_quote by (intro split_on_first [where k = 0 and d = "CHR 0x22"]) simp_all

lemma split_label_open: "CHR ''<'' \<notin> set a \<Longrightarrow> split_on label_open (a @ label_open @ b) = Some (a, b)"
  using label_open_lt by (intro split_on_first [where k = 29 and d = "CHR ''<''"]) simp_all

lemma split_span_close: "CHR ''<'' \<notin> set a \<Longrightarrow> split_on span_close (a @ span_close @ b) = Some (a, b)"
  using span_close_lt by (intro split_on_first [where k = 0 and d = "CHR ''<''"]) simp_all

lemma strip_markup_region:
  assumes "CHR ''<'' \<notin> set plain" "CHR 0x22 \<notin> set color" "CHR ''<'' \<notin> set body"
    "CHR ''<'' \<notin> set label"
  shows "strip_markup (plain @ highlight_span color body label @ rest)
         = plain @ body @ strip_markup rest"
proof -
  have "plain @ highlight_span color body label @ rest
        = plain @ span_open @ (color @ span_open_end @ (body @ label_open @ (label @ span_close @ rest)))"
    by (simp add: highlight_span_def)
  then show ?thesis
    using assms
    by (subst strip_markup.simps)
      (simp add: split_span_open split_span_open_end split_label_open split_span_close)
qed

lemma strip_markup_plain: "CHR ''<'' \<notin> set s \<Longrightarrow> strip_markup s = s"
proof -
  assume "CHR ''<'' \<notin> set s"
  moreover have "CHR ''<'' \<in> set span_open" by code_simp
  ultimately have "split_on span_open s = None" by (rule split_on_None [rotated])
  then show ?thesis by (subst strip_markup.simps) simp
qed


section \<open>Sorting lemmas\<close>

lemma sort_key_fixed: "sort_key f xs = xs \<longleftrightarrow> sorted (map f xs)"
  by (metis sorted_sort_key sort_key_id_if_sorted)

lemma disjoint_spans_sym: "disjoint_spans e f = disjoint_spans f e"
  by (auto simp: disjoint_spans_def)



section \<open>The claims\<close>

subsection \<open>C1: the round trip\<close>




subsection \<open>C2: malformed spans\<close>

text \<open>
  Scenario D of the specification, the span \<open>{start: 10, end: 5}\<close>: it has a row in the
  table, with an empty entity text, and a highlighted region in the rendering.
\<close>

theorem malformed_span_kept_counterexample:
  "entities_df round3_exact ''Take amoxicillin now''
     (sort_entities [\<lparr>ent_start = 10, ent_end = 5, ent_label = ''x'', ent_score = None\<rparr>])
   = [\<lparr>Entity = [], Label = ''x'', Start = 10, End = 5, Score = 0\<rparr>]
   \<and> highlight initial_color_options ''Take amoxicillin now''
     (sort_entities [\<lparr>ent_start = 10, ent_end = 5, ent_label = ''x'', ent_score = None\<rparr>])
   = ''Take amoxi'' @ highlight_span ''#90caf9'' [] ''x'' @ ''amoxicillin now''"
  by (simp add: entities_df_def entity_row_def sort_entities_def py_slice_def adjust_index_def
      round3_exact_def round_half_even_def highlight_markup py_slice_from_def colorFor_def
      initial_color_options_def default_color_def)

text \<open>
  C2 (amended). Line 122 only sorts. Every span of the raw list, valid or not, has its row in
  the table, and its highlighted region, with the slice \<open>text[start:end]\<close> as body, is a
  contiguous part of the rendering; the table has as many rows as the raw list has spans.
\<close>

theorem every_span_kept:
  "length (entities_df round3 text (sort_entities ents)) = length ents \<and>
   (\<forall>e \<in> set ents.
      entity_row round3 text e \<in> set (entities_df round3 text (sort_entities ents)) \<and>
      sublist (highlight_span (colorFor pal (ent_label e))
                 (py_slice text (ent_start e) (ent_end e)) (ent_label e))
        (highlight pal text (sort_entities ents)))"
proof -
  have "set (sort_entities ents) = set ents" by (simp add: sort_entities_def)
  then show ?thesis
    by (simp add: entities_df_def highlight_markup sublist_markup_from)
      (simp add: sort_entities_def)
qed

text \<open>
  The malformed span of scenario D is kept.
\<close>

theorem every_span_kept_witness:
  "entity_row round3_exact ''Take amoxicillin now''
      \<lparr>ent_start = 10, ent_end = 5, ent_label = ''x'', ent_score = None\<rparr>
     \<in> set (entities_df round3_exact ''Take amoxicillin now''
         (sort_entities [\<lparr>ent_start = 10, ent_end = 5, ent_label = ''x'', ent_score = None\<rparr>]))
   \<and> sublist (highlight_span ''#90caf9'' [] ''x'')
        (highlight initial_color_options ''Take amoxicillin now''
          (sort_entities [\<lparr>ent_start = 10, ent_end = 5, ent_label = ''x'', ent_score = None\<rparr>]))"
  using every_span_kept [of round3_exact "''Take amoxicillin now''"
      "[\<lparr>ent_start = 10, ent_end = 5, ent_label = ''x'', ent_score = None\<rparr>]"
      initial_color_options]
  by (simp add: py_slice_def adjust_index_def colorFor_def initial_color_options_def
      default_color_def)

subsection \<open>C3: overlapping spans\<close>

text \<open>
  A span \<open>[2, 4)\<close> inside the span \<open>[0, 6)\<close> before it: the cursor ends at 4, not at
  the maximum 6, and the characters \<open>cd\<close> and \<open>ef\<close> appear twice once the markup is removed.
\<close>

theorem overlap_cursor_counterexample:
  "last_idx (highlight_loop ''abcdefghij''
      \<lparr>color_options = initial_color_options, highlighted = [], last_idx = 0\<rparr>
      [\<lparr>ent_start = 0, ent_end = 6, ent_label = ''L'', ent_score = None\<rparr>,
       \<lparr>ent_start = 2, ent_end = 4, ent_label = ''L'', ent_score = None\<rparr>]) = 4
   \<and> max (6::int) 4 = 6
   \<and> strip_markup (highlight initial_color_options ''abcdefghij''
      [\<lparr>ent_start = 0, ent_end = 6, ent_label = ''L'', ent_score = None\<rparr>,
       \<lparr>ent_start = 2, ent_end = 4, ent_label = ''L'', ent_score = None\<rparr>])
     = ''abcdefcdefghij''"
proof -
  have region: "strip_markup (highlight_span ''#90caf9'' b ''L'' @ r) = b @ strip_markup r"
    if "CHR ''<'' \<notin> set b" for b r
    using strip_markup_region [of "[]" "''#90caf9''" b "''L''" r] that by simp
  have rest: "strip_markup ''efghij'' = ''efghij''"
    by (rule strip_markup_plain) simp
  have "highlight initial_color_options ''abcdefghij''
      [\<lparr>ent_start = 0, ent_end = 6, ent_label = ''L'', ent_score = None\<rparr>,
       \<lparr>ent_start = 2, ent_end = 4, ent_label = ''L'', ent_score = None\<rparr>]
     = highlight_span ''#90caf9'' ''abcdef'' ''L''
        @ highlight_span ''#90caf9'' ''cd'' ''L'' @ ''efghij''"
    by (simp add: highlight_markup py_slice_from_def py_slice_def adjust_index_def colorFor_def
        initial_color_options_def default_color_def)
  then have "strip_markup (highlight initial_color_options ''abcdefghij''
      [\<lparr>ent_start = 0, ent_end = 6, ent_label = ''L'', ent_score = None\<rparr>,
       \<lparr>ent_start = 2, ent_end = 4, ent_label = ''L'', ent_score = None\<rparr>])
     = ''abcdefcdefghij''"
    by (simp add: region rest)
  then show ?thesis
    by (simp add: highlight_loop_def highlight_step_def Let_def)
qed

text \<open>
  C3 (amended). For a span with \<open>0 \<le> start < last_idx\<close> the loop body appends no plain
  text; it appends the highlighted region with the whole slice \<open>text[start:end]\<close> and sets
  the cursor to the span's end, whether or not that is below the old cursor.
\<close>

theorem highlight_step_overlap:
  "0 \<le> ent_start e \<Longrightarrow> ent_start e < last_idx st \<Longrightarrow>
   highlight_step text st e =
     st\<lparr>highlighted := highlighted st
           @ highlight_span (colorFor (color_options st) (ent_label e))
               (py_slice text (ent_start e) (ent_end e)) (ent_label e),
        last_idx := ent_end e\<rparr>"
  by (simp add: highlight_step_def Let_def py_slice_empty)

text \<open>
  The second pass of the example above.
\<close>

theorem highlight_step_overlap_witness:
  "highlight_step ''abcdefghij''
      \<lparr>color_options = initial_color_options, highlighted = ''X'', last_idx = 6\<rparr>
      \<lparr>ent_start = 2, ent_end = 4, ent_label = ''L'', ent_score = None\<rparr>
   = \<lparr>color_options = initial_color_options,
      highlighted = ''X'' @ highlight_span ''#90caf9'' ''cd'' ''L'', last_idx = 4\<rparr>"
  using highlight_step_overlap [of "\<lparr>ent_start = 2, ent_end = 4, ent_label = ''L'', ent_score = None\<rparr>"
      "\<lparr>color_options = initial_color_options, highlighted = ''X'', last_idx = 6\<rparr>" "''abcdefghij''"]
  by (simp add: py_slice_def adjust_index_def colorFor_def initial_color_options_def
      default_color_def)

subsection \<open>C4: the order of the sort\<close>

text \<open>
  Two spans that start at 0, the longer one first: the sort leaves the longer one first.
\<close>

theorem sort_entities_tie_counterexample:
  "sort_entities
     [\<lparr>ent_start = 0, ent_end = 10, ent_label = ''a'', ent_score = None\<rparr>,
      \<lparr>ent_start = 0, ent_end = 5, ent_label = ''b'', ent_score = None\<rparr>]
   = [\<lparr>ent_start = 0, ent_end = 10, ent_label = ''a'', ent_score = None\<rparr>,
      \<lparr>ent_start = 0, ent_end = 5, ent_label = ''b'', ent_score = None\<rparr>]"
  by (simp add: sort_entities_def)

text \<open>
  C4 (amended). The sort orders the spans by ascending start and keeps every span; spans with
  the same start stay in the order they had in the raw list, so the result is determined by
  the input.
\<close>

theorem sort_entities_stable:
  "sorted (map ent_start (sort_entities es)) \<and>
   mset (sort_entities es) = mset es \<and>
   (\<forall>k. filter (\<lambda>e. ent_start e = k) (sort_entities es) = filter (\<lambda>e. ent_start e = k) es)"
  by (simp add: sort_entities_def sort_key_stable)

subsection \<open>C5: the sort is in place\<close>

text \<open>
  The list object at address 0 holds a span starting at 7 and then one starting at 2; after
  the statement the same object holds them in the other order.
\<close>

theorem list_sort_mutates_counterexample:
  "list_sort_by_start 0
     ((\<lambda>_. [])(0 := [\<lparr>ent_start = 7, ent_end = 9, ent_label = ''a'', ent_score = None\<rparr>,
                    \<lparr>ent_start = 2, ent_end = 4, ent_label = ''b'', ent_score = None\<rparr>])) 0
   = [\<lparr>ent_start = 2, ent_end = 4, ent_label = ''b'', ent_score = None\<rparr>,
      \<lparr>ent_start = 7, ent_end = 9, ent_label = ''a'', ent_score = None\<rparr>]
   \<and> list_sort_by_start 0
     ((\<lambda>_. [])(0 := [\<lparr>ent_start = 7, ent_end = 9, ent_label = ''a'', ent_score = None\<rparr>,
                    \<lparr>ent_start = 2, ent_end = 4, ent_label = ''b'', ent_score = None\<rparr>])) 0
   \<noteq> ((\<lambda>_. [])(0 := [\<lparr>ent_start = 7, ent_end = 9, ent_label = ''a'', ent_score = None\<rparr>,
                    \<lparr>ent_start = 2, ent_end = 4, ent_label = ''b'', ent_score = None\<rparr>])) 0"
  by (simp add: list_sort_by_start_def sort_entities_def)

text \<open>
  C5 (amended). The statement rewrites the list object itself: afterwards it holds the same
  spans sorted by start. It is unchanged exactly when it was sorted by start already, no other
  object changes, and this is the store the results tab leaves behind.
\<close>

theorem list_sort_in_place:
  "list_sort_by_start a h a = sort_entities (h a) \<and>
   mset (list_sort_by_start a h a) = mset (h a) \<and>
   sorted (map ent_start (list_sort_by_start a h a)) \<and>
   (list_sort_by_start a h a = h a \<longleftrightarrow> sorted (map ent_start (h a))) \<and>
   (\<forall>b. b \<noteq> a \<longrightarrow> list_sort_by_start a h b = h b) \<and>
   (text \<noteq> [] \<longrightarrow> snd (results_tab round3 pal True text a h) = list_sort_by_start a h)"
  by (simp add: list_sort_by_start_def sort_entities_def sort_key_fixed results_tab_def Let_def)

text \<open>
  Another address is untouched, and the run of the tab sorts the object at address 0.
\<close>

theorem list_sort_in_place_witness:
  "list_sort_by_start 0
     ((\<lambda>_. [])(0 := [\<lparr>ent_start = 7, ent_end = 9, ent_label = ''a'', ent_score = None\<rparr>,
                    \<lparr>ent_start = 2, ent_end = 4, ent_label = ''b'', ent_score = None\<rparr>])) 1 = []
   \<and> snd (results_tab round3_exact initial_color_options True ''abc'' 0
     ((\<lambda>_. [])(0 := [\<lparr>ent_start = 7, ent_end = 9, ent_label = ''a'', ent_score = None\<rparr>,
                    \<lparr>ent_start = 2, ent_end = 4, ent_label = ''b'', ent_score = None\<rparr>]))) 0
     = [\<lparr>ent_start = 2, ent_end = 4, ent_label = ''b'', ent_score = None\<rparr>,
        \<lparr>ent_start = 7, ent_end = 9, ent_label = ''a'', ent_score = None\<rparr>]"
  using list_sort_in_place [of 0
      "(\<lambda>_. [])(0 := [\<lparr>ent_start = 7, ent_end = 9, ent_label = ''a'', ent_score = None\<rparr>,
                     \<lparr>ent_start = 2, ent_end = 4, ent_label = ''b'', ent_score = None\<rparr>])"
      "''abc''" round3_exact initial_color_options]
  by (simp add: sort_entities_def)

subsection \<open>C6: starts after the sort\<close>

text \<open>
  Two spans that start at 0 are both kept, so the starts are not strictly increasing.
\<close>

theorem sort_entities_not_strict_counterexample:
  "map ent_start (sort_entities
     [\<lparr>ent_start = 0, ent_end = 5, ent_label = ''a'', ent_score = None\<rparr>,
      \<lparr>ent_start = 0, ent_end = 10, ent_label = ''b'', ent_score = None\<rparr>]) = [0, 0]"
  by (simp add: sort_entities_def)

text \<open>
  C6 (amended). After the sort, of any two consecutive spans the later one starts at or after
  the earlier one's start.
\<close>

theorem sort_entities_nondecreasing:
  "\<forall>i. Suc i < length (sort_entities es) \<longrightarrow>
     ent_start (sort_entities es ! i) \<le> ent_start (sort_entities es ! Suc i)"
proof (intro allI impI)
  fix i assume i: "Suc i < length (sort_entities es)"
  have "sorted (map ent_start (sort_entities es))" by (simp add: sort_entities_def)
  then have "map ent_start (sort_entities es) ! i \<le> map ent_start (sort_entities es) ! Suc i"
    using i by (intro sorted_nth_mono) simp_all
  then show "ent_start (sort_entities es ! i) \<le> ent_start (sort_entities es ! Suc i)"
    using i by simp
qed

text \<open>
  Two spans given in the wrong order.
\<close>

theorem sort_entities_nondecreasing_witness:
  "ent_start (sort_entities
     [\<lparr>ent_start = 7, ent_end = 9, ent_label = ''a'', ent_score = None\<rparr>,
      \<lparr>ent_start = 2, ent_end = 4, ent_label = ''b'', ent_score = None\<rparr>] ! 0)
   \<le> ent_start (sort_entities
     [\<lparr>ent_start = 7, ent_end = 9, ent_label = ''a'', ent_score = None\<rparr>,
      \<lparr>ent_start = 2, ent_end = 4, ent_label = ''b'', ent_score = None\<rparr>] ! Suc 0)"
  using sort_entities_nondecreasing [of
     "[\<lparr>ent_start = 7, ent_end = 9, ent_label = ''a'', ent_score = None\<rparr>,
      \<lparr>ent_start = 2, ent_end = 4, ent_label = ''b'', ent_score = None\<rparr>]"]
  by (simp add: sort_entities_def)

subsection \<open>C7: the table\<close>



subsection \<open>C8: no entities\<close>

text \<open>
  With an empty prediction the tab shows the notice only: no table, and no rendering of the
  text.
\<close>

theorem empty_list_notice_counterexample:
  \<open>fst (results_tab round3_exact initial_color_options True ''abc'' 0 (\<lambda>_. []))
     = [Info ''No entities were detected in the provided text.'']
   \<and> Dataframe [] \<notin> set (fst (results_tab round3_exact initial_color_options True ''abc'' 0 (\<lambda>_. [])))
   \<and> Markdown (''<div class="results-container">'' @ ''abc'' @ ''</div>'')
       \<notin> set (fst (results_tab round3_exact initial_color_options True ''abc'' 0 (\<lambda>_. [])))\<close>
  by (simp add: results_tab_def list_sort_by_start_def sort_entities_def)

text \<open>
  C8 (amended). An empty prediction is not an error: for a non-empty text the tab shows the
  notice that no entities were detected, and for an empty text the warning to enter some text;
  it shows neither table nor rendering. The table and the rendering of the empty list, which
  the guard of line 125 skips, would be no rows and the text unchanged.
\<close>

theorem empty_list_not_an_error:
  "(text \<noteq> [] \<and> h a = [] \<longrightarrow>
      fst (results_tab round3 pal True text a h)
        = [Info ''No entities were detected in the provided text.'']) \<and>
   fst (results_tab round3 pal True [] a h) = [Warning ''Please enter some text to process.''] \<and>
   entities_df round3 text [] = [] \<and>
   highlight pal text [] = text"
  by (simp add: results_tab_def list_sort_by_start_def sort_entities_def entities_df_def
      highlight_Nil)

text \<open>
  The text \<open>abc\<close> with an empty prediction.
\<close>

theorem empty_list_not_an_error_witness:
  "fst (results_tab round3_exact initial_color_options True ''abc'' 0 (\<lambda>_. []))
     = [Info ''No entities were detected in the provided text.'']
   \<and> highlight initial_color_options ''abc'' [] = ''abc''"
  using empty_list_not_an_error [of "''abc''" "\<lambda>_. []" 0 round3_exact initial_color_options]
  by simp

subsection \<open>C9: the colour lookup\<close>

text \<open>
  C9. The lookup gives the colour the dictionary records for the label, and \<open>#90caf9\<close> when
  it records none; the loop leaves the dictionary as it found it.
\<close>

theorem colorFor_lookup:
  "(pal label = Some c \<longrightarrow> colorFor pal label = c) \<and>
   (pal label = None \<longrightarrow> colorFor pal label = ''#90caf9'') \<and>
   color_options (highlight_loop text st ents) = color_options st"
proof -
  have "color_options (foldl (highlight_step text) st ents) = color_options st"
    by (induction ents arbitrary: st) simp_all
  then show ?thesis by (simp add: colorFor_def default_color_def highlight_loop_def)
qed

text \<open>
  A label of the initial dictionary, and one it does not have.
\<close>

theorem colorFor_lookup_witness:
  "colorFor initial_color_options ''drug group'' = ''#4dd0e1'' \<and>
   colorFor initial_color_options ''gene'' = ''#90caf9''"
  using colorFor_lookup [of initial_color_options "''drug group''" "''#4dd0e1''"]
    colorFor_lookup [of initial_color_options "''gene''"]
  by (simp add: initial_color_options_def)

subsection \<open>C10: slicing is total\<close>




end
